theory Spec2Isabelle
  imports Main "HOL-Library.Monad_Syntax"
begin

section \<open>Go strings\<close>

text \<open>
  A Go string is a sequence of bytes, modelled as \<open>string\<close> (a list of 8-bit characters).
  The functions of package \<open>strings\<close> that work on bytes are written out below.
  \<open>strings.ToLower\<close> and \<open>strings.TrimSpace\<close> work on Unicode code points; they belong
  to the library parameters further down.
\<close>

definition HasPrefix :: "string \<Rightarrow> string \<Rightarrow> bool" where
  "HasPrefix s p = (take (length p) s = p)"

definition HasSuffix :: "string \<Rightarrow> string \<Rightarrow> bool" where
  "HasSuffix s p = (length p \<le> length s \<and> drop (length s - length p) s = p)"

fun Contains :: "string \<Rightarrow> string \<Rightarrow> bool" where
  "Contains [] sub = (sub = [])"
| "Contains (c # cs) sub = (HasPrefix (c # cs) sub \<or> Contains cs sub)"

definition lower_byte :: "char \<Rightarrow> char" where
  "lower_byte c =
     (case map_of (zip ''ABCDEFGHIJKLMNOPQRSTUVWXYZ'' ''abcdefghijklmnopqrstuvwxyz'') c of
        Some l \<Rightarrow> l
      | None \<Rightarrow> c)"

definition upper_byte :: "char \<Rightarrow> char" where
  "upper_byte c =
     (case map_of (zip ''abcdefghijklmnopqrstuvwxyz'' ''ABCDEFGHIJKLMNOPQRSTUVWXYZ'') c of
        Some u \<Rightarrow> u
      | None \<Rightarrow> c)"

text \<open>Lower case of the ASCII letters, every other byte left as it is.\<close>

definition asciiLower :: "string \<Rightarrow> string" where
  "asciiLower s = map lower_byte s"

definition Trim :: "string \<Rightarrow> string \<Rightarrow> string" where
  "Trim s cutset =
     rev (dropWhile (\<lambda>c. c \<in> set cutset) (rev (dropWhile (\<lambda>c. c \<in> set cutset) s)))"

text \<open>The ASCII white space: space, tab, line feed, vertical tab, form feed, carriage return.\<close>

definition asciiSpace :: string where
  "asciiSpace = [CHR '' '', CHR 0x09, CHR 0x0A, CHR 0x0B, CHR 0x0C, CHR 0x0D]"

definition asciiTrimSpace :: "string \<Rightarrow> string" where
  "asciiTrimSpace s = Trim s asciiSpace"

definition TrimSuffix :: "string \<Rightarrow> string \<Rightarrow> string" where
  "TrimSuffix s suffix =
     (if HasSuffix s suffix then take (length s - length suffix) s else s)"

fun Join :: "string list \<Rightarrow> string \<Rightarrow> string" where
  "Join [] sep = []"
| "Join [x] sep = x"
| "Join (x # y # ys) sep = x @ sep @ Join (y # ys) sep"

text \<open>
  \<open>strings.Split\<close> cuts at every occurrence of the separator, scanning from the left and
  resuming after each occurrence. \<open>cur\<close> is the piece collected so far. The parser calls
  it with the separators \<open>;\<close>, \<open>=\<close>, a space and \<open>; charset=\<close> only; for the empty
  separator, which it never passes, Go cuts after every UTF-8 sequence, written here for
  single bytes.
\<close>

function Split_aux :: "string \<Rightarrow> string \<Rightarrow> string \<Rightarrow> string list" where
  "Split_aux sep cur [] = [cur]"
| "Split_aux sep cur (c # cs) =
     (if sep \<noteq> [] \<and> HasPrefix (c # cs) sep
      then cur # Split_aux sep [] (drop (length sep) (c # cs))
      else Split_aux sep (cur @ [c]) cs)"
  by pat_completeness auto
termination
  by (relation "measure (\<lambda>(sep, cur, s). length s)") auto

definition Split :: "string \<Rightarrow> string \<Rightarrow> string list" where
  "Split s sep = (if sep = [] then map (\<lambda>c. [c]) s else Split_aux sep [] s)"

text \<open>
  Indexing a string or a slice, \<open>xs[i]\<close>: the index must be below the length, otherwise the
  program panics (\<open>None\<close>).
\<close>

definition index :: "'a list \<Rightarrow> nat \<Rightarrow> 'a option" where
  "index xs i = (if i < length xs then Some (xs ! i) else None)"

text \<open>The line feed, carriage return and double quote, which have no literal form.\<close>

definition LF :: char where "LF = CHR 0x0A"
definition CR :: char where "CR = CHR 0x0D"
definition DQUOTE :: char where "DQUOTE = CHR 0x22"

section \<open>Data model\<close>

text \<open>
  An error value that comes out of the Go standard library is identified by its message.
\<close>

type_synonym liberr = string

text \<open>The errors the parser itself creates with \<open>fmt.Errorf\<close>, and library errors passed on.\<close>

datatype error =
    Library liberr
  | MediaTypeError string liberr
  | UnknownEncoding string
  | RelatedInnerType string
  | AlternativeInnerType string
  | MixedNestedType string

text \<open>
  What reading a stream to its end yields: the bytes still unread, followed by the end of
  the stream (\<open>None\<close>) or by a read error.
\<close>

type_synonym stream = "string \<times> liberr option"

text \<open>
  \<open>mail.Header\<close> and \<open>textproto.MIMEHeader\<close> are \<open>map[string][]string\<close>; the keys are in
  canonical form, as the library stores them when it reads a header block.
\<close>

type_synonym header = "(string \<times> string list) list"

text \<open>
  A body as the library presents it: \<open>raw\<close> is what reading it yields; \<open>mp_parts\<close> and
  \<open>mp_end\<close> are what the successive calls of \<open>NextPart\<close> yield on a
  \<open>multipart.NewReader\<close> over this body with the boundary of its content type: the parts
  (header and body of each), then \<open>io.EOF\<close> (\<open>None\<close>) or an error. A part is taken as
  \<open>NextPart\<close> hands it over: for a part sent as quoted-printable the library has decoded
  the body and deleted the \<open>Content-Transfer-Encoding\<close> field already.
\<close>

datatype body = Body (raw: stream) (mp_parts: "(header \<times> body) list") (mp_end: "liberr option")

record address =
  Name :: string
  Address :: string

text \<open>A \<open>time.Time\<close> as nanoseconds counted from the zero time.\<close>

type_synonym time = int

datatype charmap = Windows1252 | ISO8859_1 | KOI8R | Windows1251

text \<open>
  The standard library and \<open>golang.org/x/text\<close>, which the parser calls and which are not
  part of the repository, are parameters of the model. \<open>base64_ReadAll\<close> stands for
  \<open>io.ReadAll(base64.NewDecoder(base64.StdEncoding, r))\<close> and \<open>quotedprintable_ReadAll\<close> for
  \<open>io.ReadAll(quotedprintable.NewReader(r))\<close>, both given what \<open>r\<close> yields;
  \<open>charmap_table cm b\<close> is the UTF-8 form of the rune that the single-byte codec \<open>cm\<close>
  assigns to the byte \<open>b\<close> (the codec's table is an array indexed by the byte, so the
  entry is a function of it); \<open>UnixNano\<close> is the reading of \<open>time.Now().UnixNano()\<close> and
  \<open>Sprintf_d\<close> the decimal form that \<open>%d\<close> prints. \<open>ToLower\<close> and \<open>TrimSpace\<close> are
  \<open>strings.ToLower\<close> and \<open>strings.TrimSpace\<close>. \<open>ParseMediaType\<close> returns the media type,
  the parameters and the error together, as \<open>mime.ParseMediaType\<close> does.
\<close>

record stdlib =
  ToLower :: "string \<Rightarrow> string"
  TrimSpace :: "string \<Rightarrow> string"
  ReadMessage :: "string \<Rightarrow> liberr + (header \<times> body)"
  ParseAddress :: "string \<Rightarrow> liberr + address"
  ParseAddressList :: "string \<Rightarrow> liberr + address list"
  time_Parse :: "string \<Rightarrow> string \<Rightarrow> liberr + time"
  ParseMediaType :: "string \<Rightarrow> string \<times> (string \<Rightarrow> string option) \<times> liberr option"
  WordDecoder_Decode :: "string \<Rightarrow> liberr + string"
  base64_DecodeString :: "string \<Rightarrow> liberr + string"
  base64_ReadAll :: "stream \<Rightarrow> liberr + string"
  quotedprintable_ReadAll :: "stream \<Rightarrow> liberr + string"
  charmap_table :: "charmap \<Rightarrow> char \<Rightarrow> string"
  Part_FileName :: "header \<Rightarrow> string"
  UnixNano :: int
  Sprintf_d :: "int \<Rightarrow> string"

text \<open>
  An \<open>io.Reader\<close> value, by the way it was built: \<open>bytes.NewReader(b)\<close>, the content stream
  that was handed to the decoding function, or a charmap decoder wrapped around a reader.
\<close>

datatype reader =
    BytesReader string
  | Stream
  | CharmapReader charmap reader

text \<open>
  \<open>io.ReadAll\<close> of a reader, given what the content stream still holds. It returns the
  bytes and the error as Go does, and the content stream afterwards.
\<close>

fun ReadAll :: "stdlib \<Rightarrow> reader \<Rightarrow> stream \<Rightarrow> (string \<times> liberr option) \<times> stream" where
  "ReadAll L (BytesReader b) st = ((b, None), st)"
| "ReadAll L Stream st = (st, ([], snd st))"
| "ReadAll L (CharmapReader cm r) st =
     (case ReadAll L r st of
        ((b, e), st') \<Rightarrow> ((concat (map (charmap_table L cm) b), e), st'))"

text \<open>
  A Go function that can panic returns \<open>None\<close> for the panic and \<open>Some\<close> of its results
  otherwise.
\<close>

section \<open>Encoded-word header decoder\<close>

definition prefixLen :: nat where
  "prefixLen = 11"

text \<open>
  \<open>decodeKoi8\<close>. The slice expressions \<open>s[0:prefixLen]\<close> and \<open>s[prefixLen:len(s)-2]\<close>
  panic when a bound lies outside the string or the bounds are out of order. The lines
  printed with \<open>fmt.Println\<close> are not part of the result. \<open>prefix[prefixLen-2]\<close> panics
  when lower-casing has left fewer than ten bytes. The KOI8-R decoder maps every byte, so
  reading it to the end gives no error.
\<close>

definition decodeKoi8 :: "stdlib \<Rightarrow> string \<Rightarrow> (bool \<times> string) option" where
  "decodeKoi8 L s =
     (if \<not> HasPrefix (ToLower L s) ''=?koi8-r'' then Some (False, '''')
      else if length s < prefixLen then None
      else
        let prefix = ToLower L (take prefixLen s) in
        if int (length s) - 2 < int prefixLen then None
        else
          let origin = take (length s - 2 - prefixLen) (drop prefixLen s) in
          do {
            c \<leftarrow> index prefix (prefixLen - 2);
            if c = CHR ''b'' then
              (case base64_DecodeString L origin of
                 Inl e \<Rightarrow> Some (False, '''')
               | Inr decodedOrigin \<Rightarrow>
                   Some (True, concat (map (charmap_table L KOI8R) decodedOrigin)))
            else if c = CHR ''q'' then
              (case quotedprintable_ReadAll L (origin, None) of
                 Inl e \<Rightarrow> Some (False, '''')
               | Inr decodedOrigin \<Rightarrow>
                   Some (True, concat (map (charmap_table L KOI8R) decodedOrigin)))
            else Some (False, '''')
          })"

text \<open>The loop of \<open>decodeMimeSentence\<close> over the words, with \<open>result\<close> as it grows.\<close>

fun decodeWords :: "stdlib \<Rightarrow> string list \<Rightarrow> string list \<Rightarrow> string list" where
  "decodeWords L result [] = result"
| "decodeWords L result (word # ss) =
     (let w = (case WordDecoder_Decode L word of
                 Inr w \<Rightarrow> w
               | Inl e \<Rightarrow> if length result = 0 then word else '' '' @ word)
      in decodeWords L (result @ [w]) ss)"

definition decodeMimeSentence :: "stdlib \<Rightarrow> string \<Rightarrow> string option" where
  "decodeMimeSentence L s =
     do {
       (success, str) \<leftarrow> decodeKoi8 L s;
       if success then Some str
       else Some (Join (decodeWords L [] (Split s '' '')) '''')
     }"

section \<open>Charset and transfer-encoding decoding\<close>

definition decoders :: "string \<Rightarrow> charmap option" where
  "decoders =
     [''windows-1252'' \<mapsto> Windows1252,
      ''iso-8859-1'' \<mapsto> ISO8859_1,
      ''koi8-r'' \<mapsto> KOI8R,
      ''windows-1251'' \<mapsto> Windows1251]"



definition charsetCutset :: string where
  "charsetCutset = [CHR '' '', DQUOTE, CHR 0x27, LF, CR]"

definition decodeCharset :: "stdlib \<Rightarrow> reader \<Rightarrow> string \<Rightarrow> reader option" where
  "decodeCharset L content contentTypeWithCharset =
     do {
       charset \<leftarrow>
         (if Contains contentTypeWithCharset ''; charset='' then
            do {
              s1 \<leftarrow> index (Split contentTypeWithCharset ''; charset='') 1;
              Some (ToLower L (Trim s1 charsetCutset))
            }
          else Some ''default'');
       if charset \<noteq> ''default'' then
         (case decoders charset of
            Some decoder \<Rightarrow> Some (CharmapReader decoder content)
          | None \<Rightarrow> Some content)
       else Some content
     }"

text \<open>
  \<open>decodeContent\<close> takes the content reader by what it still holds and returns the reader
  and the error as Go does, with the content stream afterwards.
\<close>

definition decodeContent ::
  "stdlib \<Rightarrow> stream \<Rightarrow> string \<Rightarrow> string \<Rightarrow> ((reader option \<times> error option) \<times> stream) option" where
  "decodeContent L content encoding contentTypeWithCharset =
     (let enc = ToLower L encoding in
      if enc = ''base64'' then
        (case base64_ReadAll L content of
           Inl e \<Rightarrow> Some ((None, Some (Library e)), ([], snd content))
         | Inr b \<Rightarrow>
             do {
               r \<leftarrow> decodeCharset L (BytesReader b) contentTypeWithCharset;
               Some ((Some r, None), ([], snd content))
             })
      else if enc = ''7bit'' \<or> enc = ''8bit'' then
        (case ReadAll L Stream content of
           ((dd, Some e), st) \<Rightarrow> Some ((None, Some (Library e)), st)
         | ((dd, None), st) \<Rightarrow>
             do {
               r \<leftarrow> decodeCharset L (BytesReader dd) contentTypeWithCharset;
               Some ((Some r, None), st)
             })
      else if enc = ''quoted-printable'' then
        (case quotedprintable_ReadAll L content of
           Inl e \<Rightarrow> Some ((None, Some (Library e)), ([], snd content))
         | Inr b \<Rightarrow>
             do {
               r \<leftarrow> decodeCharset L (BytesReader b) contentTypeWithCharset;
               Some ((Some r, None), ([], snd content))
             })
      else if enc = '''' then
        do {
          r \<leftarrow> decodeCharset L Stream contentTypeWithCharset;
          Some ((Some r, None), content)
        }
      else Some ((None, Some (UnknownEncoding encoding)), content))"

section \<open>Header fields\<close>

text \<open>
  \<open>textproto.CanonicalMIMEHeaderKey\<close> on a key of letters, digits and hyphens (all the keys
  the parser asks for are of this kind): the first letter and every letter after a hyphen
  in upper case, the others in lower case.
\<close>

fun canonical :: "bool \<Rightarrow> string \<Rightarrow> string" where
  "canonical upper [] = []"
| "canonical upper (c # cs) =
     (if upper then upper_byte c else lower_byte c) # canonical (c = CHR ''-'') cs"

definition CanonicalMIMEHeaderKey :: "string \<Rightarrow> string" where
  "CanonicalMIMEHeaderKey s = canonical True s"

definition Get :: "header \<Rightarrow> string \<Rightarrow> string" where
  "Get h key =
     (case map_of h (CanonicalMIMEHeaderKey key) of
        None \<Rightarrow> ''''
      | Some [] \<Rightarrow> ''''
      | Some (v # vs) \<Rightarrow> v)"

record Attachment =
  Filename :: string
  at_ContentType :: string
  at_Data :: "reader option"

record EmbeddedFile =
  CID :: string
  ef_ContentType :: string
  ef_Data :: "reader option"

record Email =
  Header :: header
  Subject :: string
  Sender :: "address option"
  From :: "address list"
  ReplyTo :: "address list"
  To :: "address list"
  Cc :: "address list"
  Bcc :: "address list"
  Date :: time
  MessageID :: string
  InReplyTo :: "string list"
  References :: "string list"
  ResentFrom :: "address list"
  ResentSender :: "address option"
  ResentTo :: "address list"
  ResentDate :: time
  ResentCc :: "address list"
  ResentBcc :: "address list"
  ResentMessageID :: string
  ContentType :: string
  Content :: "reader option"
  HTMLBody :: string
  TextBody :: string
  Attachments :: "Attachment list"
  EmbeddedFiles :: "EmbeddedFile list"

record headerParser =
  header :: header
  err :: "error option"

text \<open>
  The methods of \<open>headerParser\<close> are declared on the value, \<open>func (hp headerParser) ...\<close>,
  so each call works on its own copy of the receiver. A method is modelled as a function
  from the receiver to its result together with that copy as the method leaves it; the
  caller's \<open>hp\<close> is not touched.
\<close>

definition parseAddress ::
  "stdlib \<Rightarrow> headerParser \<Rightarrow> string \<Rightarrow> address option \<times> headerParser" where
  "parseAddress L hp s =
     (if err hp \<noteq> None then (None, hp)
      else if Trim s [CHR '' '', LF] \<noteq> '''' then
        (case ParseAddress L s of
           Inl e \<Rightarrow> (None, hp\<lparr>err := Some (Library e)\<rparr>)
         | Inr ma \<Rightarrow> (Some ma, hp\<lparr>err := None\<rparr>))
      else (None, hp))"

definition parseAddressList ::
  "stdlib \<Rightarrow> headerParser \<Rightarrow> string \<Rightarrow> address list \<times> headerParser" where
  "parseAddressList L hp s =
     (if err hp \<noteq> None then ([], hp)
      else if Trim s [CHR '' '', LF] \<noteq> '''' then
        (case ParseAddressList L s of
           Inl e \<Rightarrow> ([], hp\<lparr>err := Some (Library e)\<rparr>)
         | Inr ma \<Rightarrow> (ma, hp\<lparr>err := None\<rparr>))
      else ([], hp))"

definition RFC1123Z :: string where
  "RFC1123Z = ''Mon, 02 Jan 2006 15:04:05 -0700''"

definition formats :: "string list" where
  "formats =
     [RFC1123Z,
      ''Mon, 2 Jan 2006 15:04:05 -0700'',
      RFC1123Z @ '' (MST)'',
      ''Mon, 2 Jan 2006 15:04:05 -0700 (MST)'']"

text \<open>
  The loop of \<open>parseTime\<close> over the formats. \<open>time.Parse\<close> returns the zero time with its
  error.
\<close>

fun parseTimeLoop ::
  "stdlib \<Rightarrow> string list \<Rightarrow> string \<Rightarrow> time \<times> headerParser \<Rightarrow> time \<times> headerParser" where
  "parseTimeLoop L [] s (t, hp) = (t, hp)"
| "parseTimeLoop L (format # fs) s (t, hp) =
     (case time_Parse L format s of
        Inr t' \<Rightarrow> (t', hp\<lparr>err := None\<rparr>)
      | Inl e \<Rightarrow> parseTimeLoop L fs s (0, hp\<lparr>err := Some (Library e)\<rparr>))"

definition parseTime :: "stdlib \<Rightarrow> headerParser \<Rightarrow> string \<Rightarrow> time \<times> headerParser" where
  "parseTime L hp s =
     (if err hp \<noteq> None \<or> s = '''' then (0, hp)
      else parseTimeLoop L formats s (0, hp))"

definition parseMessageId :: "headerParser \<Rightarrow> string \<Rightarrow> string \<times> headerParser" where
  "parseMessageId hp s =
     (if err hp \<noteq> None then ('''', hp) else (Trim s ''<> '', hp))"

fun parseMessageIdListLoop :: "headerParser \<Rightarrow> string list \<Rightarrow> string list \<Rightarrow> string list" where
  "parseMessageIdListLoop hp [] result = result"
| "parseMessageIdListLoop hp (p # ps) result =
     (if Trim p [CHR '' '', LF] \<noteq> ''''
      then parseMessageIdListLoop hp ps (result @ [fst (parseMessageId hp p)])
      else parseMessageIdListLoop hp ps result)"

definition parseMessageIdList :: "headerParser \<Rightarrow> string \<Rightarrow> string list \<times> headerParser" where
  "parseMessageIdList hp s =
     (if err hp \<noteq> None then ([], hp)
      else (parseMessageIdListLoop hp (Split s '' '') [], hp))"

fun decodeValues :: "stdlib \<Rightarrow> string list \<Rightarrow> string list option" where
  "decodeValues L [] = Some []"
| "decodeValues L (headerValue # vs) =
     do {
       d \<leftarrow> decodeMimeSentence L headerValue;
       ds \<leftarrow> decodeValues L vs;
       Some (d # ds)
     }"

fun decodeHeaderLoop :: "stdlib \<Rightarrow> header \<Rightarrow> header option" where
  "decodeHeaderLoop L [] = Some []"
| "decodeHeaderLoop L ((headerName, headerData) # rest) =
     do {
       parsedHeaderData \<leftarrow> decodeValues L headerData;
       parsedHeader \<leftarrow> decodeHeaderLoop L rest;
       Some ((headerName, parsedHeaderData) # parsedHeader)
     }"

definition decodeHeaderMime :: "stdlib \<Rightarrow> header \<Rightarrow> (header \<times> error option) option" where
  "decodeHeaderMime L h =
     do {
       parsedHeader \<leftarrow> decodeHeaderLoop L h;
       Some (parsedHeader, None)
     }"

text \<open>
  \<open>createEmailFromHeader\<close>. Every method call receives a copy of \<open>hp\<close>, so only the first
  component of what the method returns comes back; \<open>hp\<close> itself is the value built in the
  first line all the way down to the test \<open>hp.err != nil\<close>.
\<close>

definition createEmailFromHeader :: "stdlib \<Rightarrow> header \<Rightarrow> (Email \<times> error option) option" where
  "createEmailFromHeader L h =
     do {
       let hp = \<lparr>header = h, err = None\<rparr>;
       subject \<leftarrow> decodeMimeSentence L (Get h ''Subject'');
       let email =
         \<lparr>Header = [],
          Subject = subject,
          Sender = fst (parseAddress L hp (Get h ''Sender'')),
          From = fst (parseAddressList L hp (Get h ''From'')),
          ReplyTo = fst (parseAddressList L hp (Get h ''Reply-To'')),
          To = fst (parseAddressList L hp (Get h ''To'')),
          Cc = fst (parseAddressList L hp (Get h ''Cc'')),
          Bcc = fst (parseAddressList L hp (Get h ''Bcc'')),
          Date = fst (parseTime L hp (Get h ''Date'')),
          MessageID = fst (parseMessageId hp (Get h ''Message-ID'')),
          InReplyTo = fst (parseMessageIdList hp (Get h ''In-Reply-To'')),
          References = fst (parseMessageIdList hp (Get h ''References'')),
          ResentFrom = fst (parseAddressList L hp (Get h ''Resent-From'')),
          ResentSender = fst (parseAddress L hp (Get h ''Resent-Sender'')),
          ResentTo = fst (parseAddressList L hp (Get h ''Resent-To'')),
          ResentDate = fst (parseTime L hp (Get h ''Resent-Date'')),
          ResentCc = fst (parseAddressList L hp (Get h ''Resent-Cc'')),
          ResentBcc = fst (parseAddressList L hp (Get h ''Resent-Bcc'')),
          ResentMessageID = fst (parseMessageId hp (Get h ''Resent-Message-ID'')),
          ContentType = '''',
          Content = None,
          HTMLBody = '''',
          TextBody = '''',
          Attachments = [],
          EmbeddedFiles = []\<rparr>;
       if err hp \<noteq> None then Some (email, err hp)
       else
         do {
           (parsedHeader, e) \<leftarrow> decodeHeaderMime L h;
           Some (email\<lparr>Header := parsedHeader\<rparr>, e)
         }
     }"

section \<open>Content types\<close>

definition contentTypeMultipartMixed :: string where
  "contentTypeMultipartMixed = ''multipart/mixed''"

definition contentTypeMultipartAlternative :: string where
  "contentTypeMultipartAlternative = ''multipart/alternative''"

definition contentTypeMultipartRelated :: string where
  "contentTypeMultipartRelated = ''multipart/related''"

definition contentTypeTextHtml :: string where
  "contentTypeTextHtml = ''text/html''"

definition contentTypeTextPlain :: string where
  "contentTypeTextPlain = ''text/plain''"

text \<open>The loop of \<open>sanitizeContentTypeHeader\<close>; \<open>seen\<close> holds the keys of the Go map.\<close>

fun sanitizeLoop ::
  "stdlib \<Rightarrow> string list \<Rightarrow> string list \<Rightarrow> string list \<Rightarrow> string list option" where
  "sanitizeLoop L [] seen result = Some result"
| "sanitizeLoop L (p0 # ps) seen result =
     (let p = TrimSpace L p0 in
      if p = '''' then sanitizeLoop L ps seen result
      else if Contains p ''='' then
        do {
          k \<leftarrow> index (Split p ''='') 0;
          if ToLower L k \<in> set seen then sanitizeLoop L ps seen result
          else sanitizeLoop L ps (ToLower L k # seen) (result @ [p])
        }
      else sanitizeLoop L ps seen (result @ [p]))"

definition sanitizeContentTypeHeader :: "stdlib \<Rightarrow> string \<Rightarrow> string option" where
  "sanitizeContentTypeHeader L contentType =
     do {
       result \<leftarrow> sanitizeLoop L (Split contentType '';'') [] [];
       Some (Join result ''; '')
     }"

definition parseContentType ::
  "stdlib \<Rightarrow> string \<Rightarrow> (string \<times> (string \<Rightarrow> string option) \<times> error option) option" where
  "parseContentType L contentTypeHeader =
     (if contentTypeHeader = '''' then Some (contentTypeTextPlain, Map.empty, None)
      else
        do {
          s \<leftarrow> sanitizeContentTypeHeader L contentTypeHeader;
          (case ParseMediaType L s of
             (mediaType, params, e) \<Rightarrow>
               Some (mediaType, params, map_option (MediaTypeError contentTypeHeader) e))
        })"

text \<open>\<open>params["boundary"]\<close>: a missing key reads as the empty string.\<close>

definition lookup :: "(string \<Rightarrow> string option) \<Rightarrow> string \<Rightarrow> string" where
  "lookup params k = (case params k of None \<Rightarrow> '''' | Some v \<Rightarrow> v)"

section \<open>Leaf parts\<close>

type_synonym part = "header \<times> body"

definition isEmbeddedFile :: "part \<Rightarrow> bool" where
  "isEmbeddedFile part = (Get (fst part) ''Content-Transfer-Encoding'' \<noteq> '''')"

definition decodeEmbeddedFile :: "stdlib \<Rightarrow> part \<Rightarrow> (EmbeddedFile \<times> error option) option" where
  "decodeEmbeddedFile L part =
     do {
       cid \<leftarrow> decodeMimeSentence L (Get (fst part) ''Content-Id'');
       ((decoded, e), st) \<leftarrow>
         decodeContent L (raw (snd part)) (Get (fst part) ''Content-Transfer-Encoding'')
           (Get (fst part) ''Content-Type'');
       if e \<noteq> None then Some (\<lparr>CID = '''', ef_ContentType = '''', ef_Data = None\<rparr>, e)
       else
         Some (\<lparr>CID = Trim cid ''<>'',
                ef_ContentType = Get (fst part) ''Content-Type'',
                ef_Data = decoded\<rparr>, None)
     }"

definition isAttachment :: "stdlib \<Rightarrow> part \<Rightarrow> string \<Rightarrow> bool" where
  "isAttachment L part contentType =
     (Part_FileName L (fst part) \<noteq> '''' \<or> contentType = ''application/octet-stream'')"

text \<open>
  \<open>decodeAttachment\<close>. \<open>decodeContent\<close> and the later \<open>io.ReadAll(part)\<close> read the same
  part, so the second one gets what the first one left.
\<close>

definition decodeAttachment :: "stdlib \<Rightarrow> part \<Rightarrow> (Attachment \<times> error option) option" where
  "decodeAttachment L part =
     do {
       name \<leftarrow> decodeMimeSentence L (Part_FileName L (fst part));
       let filename =
         (if name = '''' then ''attachment-'' @ Sprintf_d L (UnixNano L) else name);
       ((decoded, e), st) \<leftarrow>
         decodeContent L (raw (snd part)) (Get (fst part) ''Content-Transfer-Encoding'')
           (Get (fst part) ''Content-Type'');
       if e \<noteq> None then Some (\<lparr>Filename = '''', at_ContentType = '''', at_Data = None\<rparr>, e)
       else
         do {
           ct \<leftarrow> index (Split (Get (fst part) ''Content-Type'') '';'') 0;
           let at = \<lparr>Filename = filename, at_ContentType = ct, at_Data = decoded\<rparr>;
           if ct = ''application/octet-stream'' then
             (case ReadAll L Stream st of
                ((data, Some e'), st') \<Rightarrow> Some (at, Some (Library e'))
              | ((data, None), st') \<Rightarrow> Some (at\<lparr>at_Data := Some (BytesReader data)\<rparr>, None))
           else Some (at, None)
         }
     }"

text \<open>
  A text leaf of the alternative and mixed handlers: \<open>decodeContent\<close>, then \<open>io.ReadAll\<close>
  of the reader it returns, then the trailing line feed cut. The result is the text to
  append, or the error to return. Reading a nil reader panics.
\<close>

definition decodeLeaf :: "stdlib \<Rightarrow> part \<Rightarrow> (error + string) option" where
  "decodeLeaf L part =
     do {
       ((newPart, e), st) \<leftarrow>
         decodeContent L (raw (snd part)) (Get (fst part) ''Content-Transfer-Encoding'')
           (Get (fst part) ''Content-Type'');
       (case e of
          Some e' \<Rightarrow> Some (Inl e')
        | None \<Rightarrow>
            do {
              r \<leftarrow> newPart;
              (case ReadAll L r st of
                 ((ppContent, Some e'), st') \<Rightarrow> Some (Inl (Library e'))
               | ((ppContent, None), st') \<Rightarrow> Some (Inr (TrimSuffix ppContent [LF])))
            })
     }"

text \<open>A text leaf of the related handler: \<open>io.ReadAll(part)\<close> and the line feed cut.\<close>

definition readLeaf :: "stdlib \<Rightarrow> part \<Rightarrow> error + string" where
  "readLeaf L part =
     (case ReadAll L Stream (raw (snd part)) of
        ((ppContent, Some e'), st') \<Rightarrow> Inl (Library e')
      | ((ppContent, None), st') \<Rightarrow> Inr (TrimSuffix ppContent [LF]))"

section \<open>Multipart walker\<close>

text \<open>
  The loop of \<open>parseMultipartRelated\<close> and that of \<open>parseMultipartAlternative\<close> over the parts that
  \<open>NextPart\<close> yields, with the three results as they grow. When the parts are used up the
  loop ends with \<open>io.EOF\<close> (the function returns its results with a nil error) or with the
  reader's error (the function returns it). A nested call starts from empty results.
\<close>

function relatedLoop ::
  "stdlib \<Rightarrow> part list \<Rightarrow> liberr option \<Rightarrow> string \<Rightarrow> string \<Rightarrow> EmbeddedFile list \<Rightarrow>
   (string \<times> string \<times> EmbeddedFile list \<times> error option) option"
and alternativeLoop ::
  "stdlib \<Rightarrow> part list \<Rightarrow> liberr option \<Rightarrow> string \<Rightarrow> string \<Rightarrow> EmbeddedFile list \<Rightarrow>
   (string \<times> string \<times> EmbeddedFile list \<times> error option) option"
where
  "relatedLoop L [] fin textBody htmlBody embeddedFiles =
     Some (textBody, htmlBody, embeddedFiles, map_option Library fin)"
| "relatedLoop L ((h, b) # rest) fin textBody htmlBody embeddedFiles =
     do {
       s \<leftarrow> sanitizeContentTypeHeader L (Get h ''Content-Type'');
       (case ParseMediaType L s of
          (contentType, params, Some e) \<Rightarrow>
            Some (textBody, htmlBody, embeddedFiles,
                  Some (MediaTypeError (Get h ''Content-Type'') e))
        | (contentType, params, None) \<Rightarrow>
            if contentType = contentTypeTextPlain then
              (case readLeaf L (h, b) of
                 Inl e \<Rightarrow> Some (textBody, htmlBody, embeddedFiles, Some e)
               | Inr t \<Rightarrow> relatedLoop L rest fin (textBody @ t) htmlBody embeddedFiles)
            else if contentType = contentTypeTextHtml then
              (case readLeaf L (h, b) of
                 Inl e \<Rightarrow> Some (textBody, htmlBody, embeddedFiles, Some e)
               | Inr t \<Rightarrow> relatedLoop L rest fin textBody (htmlBody @ t) embeddedFiles)
            else if contentType = contentTypeMultipartAlternative then
              do {
                (tb, hb, ef, e) \<leftarrow> alternativeLoop L (mp_parts b) (mp_end b) '''' '''' [];
                if e \<noteq> None then Some (textBody, htmlBody, embeddedFiles, e)
                else relatedLoop L rest fin (textBody @ tb) (htmlBody @ hb) (embeddedFiles @ ef)
              }
            else if isEmbeddedFile (h, b) then
              do {
                (ef, e) \<leftarrow> decodeEmbeddedFile L (h, b);
                if e \<noteq> None then Some (textBody, htmlBody, embeddedFiles, e)
                else relatedLoop L rest fin textBody htmlBody (embeddedFiles @ [ef])
              }
            else Some (textBody, htmlBody, embeddedFiles, Some (RelatedInnerType contentType)))
     }"
| "alternativeLoop L [] fin textBody htmlBody embeddedFiles =
     Some (textBody, htmlBody, embeddedFiles, map_option Library fin)"
| "alternativeLoop L ((h, b) # rest) fin textBody htmlBody embeddedFiles =
     do {
       s \<leftarrow> sanitizeContentTypeHeader L (Get h ''Content-Type'');
       (case ParseMediaType L s of
          (contentType, params, Some e) \<Rightarrow>
            Some (textBody, htmlBody, embeddedFiles,
                  Some (MediaTypeError (Get h ''Content-Type'') e))
        | (contentType, params, None) \<Rightarrow>
            if contentType = contentTypeTextPlain then
              do {
                leaf \<leftarrow> decodeLeaf L (h, b);
                (case leaf of
                   Inl e \<Rightarrow> Some (textBody, htmlBody, embeddedFiles, Some e)
                 | Inr t \<Rightarrow> alternativeLoop L rest fin (textBody @ t) htmlBody embeddedFiles)
              }
            else if contentType = contentTypeTextHtml then
              do {
                leaf \<leftarrow> decodeLeaf L (h, b);
                (case leaf of
                   Inl e \<Rightarrow> Some (textBody, htmlBody, embeddedFiles, Some e)
                 | Inr t \<Rightarrow> alternativeLoop L rest fin textBody (htmlBody @ t) embeddedFiles)
              }
            else if contentType = contentTypeMultipartRelated then
              do {
                (tb, hb, ef, e) \<leftarrow> relatedLoop L (mp_parts b) (mp_end b) '''' '''' [];
                if e \<noteq> None then Some (textBody, htmlBody, embeddedFiles, e)
                else alternativeLoop L rest fin (textBody @ tb) (htmlBody @ hb) (embeddedFiles @ ef)
              }
            else if isEmbeddedFile (h, b) then
              do {
                (ef, e) \<leftarrow> decodeEmbeddedFile L (h, b);
                if e \<noteq> None then Some (textBody, htmlBody, embeddedFiles, e)
                else alternativeLoop L rest fin textBody htmlBody (embeddedFiles @ [ef])
              }
            else
              Some (textBody, htmlBody, embeddedFiles, Some (AlternativeInnerType contentType)))
     }"
  by pat_completeness auto
termination
proof -
  let ?w = "size_list (size_prod (\<lambda>x. 0) size) :: part list \<Rightarrow> nat"
  have nested: "?w (mp_parts b) < Suc (Suc (size b + n))" for b n
    by (cases b) simp
  show ?thesis
    by (relation "measure (\<lambda>x. case x of
            Inl (L, ps, r) \<Rightarrow> size_list (size_prod (\<lambda>x. 0) size) ps
          | Inr (L, ps, r) \<Rightarrow> size_list (size_prod (\<lambda>x. 0) size) ps)")
       (simp_all add: nested)
qed

text \<open>
  The two handlers. The reader that \<open>multipart.NewReader(msg, boundary)\<close> builds is in
  \<open>msg\<close> already (its parts and its end), so \<open>boundary\<close> is not looked at again.
\<close>

definition parseMultipartRelated ::
  "stdlib \<Rightarrow> body \<Rightarrow> string \<Rightarrow> (string \<times> string \<times> EmbeddedFile list \<times> error option) option" where
  "parseMultipartRelated L msg boundary = relatedLoop L (mp_parts msg) (mp_end msg) '''' '''' []"

definition parseMultipartAlternative ::
  "stdlib \<Rightarrow> body \<Rightarrow> string \<Rightarrow> (string \<times> string \<times> EmbeddedFile list \<times> error option) option" where
  "parseMultipartAlternative L msg boundary =
     alternativeLoop L (mp_parts msg) (mp_end msg) '''' '''' []"

text \<open>
  The loop of \<open>parseMultipartMixed\<close>. For a nested multipart part the source assigns the
  results of the nested handler to \<open>textBody\<close>, \<open>htmlBody\<close> and \<open>embeddedFiles\<close>, and returns
  them as assigned when the nested handler failed.
\<close>

fun mixedLoop ::
  "stdlib \<Rightarrow> part list \<Rightarrow> liberr option \<Rightarrow>
   string \<Rightarrow> string \<Rightarrow> Attachment list \<Rightarrow> EmbeddedFile list \<Rightarrow>
   (string \<times> string \<times> Attachment list \<times> EmbeddedFile list \<times> error option) option"
where
  "mixedLoop L [] fin textBody htmlBody attachments embeddedFiles =
     Some (textBody, htmlBody, attachments, embeddedFiles, map_option Library fin)"
| "mixedLoop L (part # rest) fin textBody htmlBody attachments embeddedFiles =
     do {
       s \<leftarrow> sanitizeContentTypeHeader L (Get (fst part) ''Content-Type'');
       (case ParseMediaType L s of
          (contentType, params, Some e) \<Rightarrow>
            Some (textBody, htmlBody, attachments, embeddedFiles,
                  Some (MediaTypeError (Get (fst part) ''Content-Type'') e))
        | (contentType, params, None) \<Rightarrow>
            if contentType = contentTypeMultipartAlternative then
              do {
                (tb, hb, ef, e) \<leftarrow>
                  parseMultipartAlternative L (snd part) (lookup params ''boundary'');
                if e \<noteq> None then Some (tb, hb, attachments, ef, e)
                else mixedLoop L rest fin tb hb attachments ef
              }
            else if contentType = contentTypeMultipartRelated then
              do {
                (tb, hb, ef, e) \<leftarrow>
                  parseMultipartRelated L (snd part) (lookup params ''boundary'');
                if e \<noteq> None then Some (tb, hb, attachments, ef, e)
                else mixedLoop L rest fin tb hb attachments ef
              }
            else if contentType = contentTypeTextPlain then
              do {
                leaf \<leftarrow> decodeLeaf L part;
                (case leaf of
                   Inl e \<Rightarrow> Some (textBody, htmlBody, attachments, embeddedFiles, Some e)
                 | Inr t \<Rightarrow> mixedLoop L rest fin (textBody @ t) htmlBody attachments embeddedFiles)
              }
            else if contentType = contentTypeTextHtml then
              do {
                leaf \<leftarrow> decodeLeaf L part;
                (case leaf of
                   Inl e \<Rightarrow> Some (textBody, htmlBody, attachments, embeddedFiles, Some e)
                 | Inr t \<Rightarrow> mixedLoop L rest fin textBody (htmlBody @ t) attachments embeddedFiles)
              }
            else if isAttachment L part contentType then
              do {
                (at, e) \<leftarrow> decodeAttachment L part;
                if e \<noteq> None then Some (textBody, htmlBody, attachments, embeddedFiles, e)
                else mixedLoop L rest fin textBody htmlBody (attachments @ [at]) embeddedFiles
              }
            else
              Some (textBody, htmlBody, attachments, embeddedFiles,
                    Some (MixedNestedType contentType)))
     }"

definition parseMultipartMixed ::
  "stdlib \<Rightarrow> body \<Rightarrow> string \<Rightarrow>
   (string \<times> string \<times> Attachment list \<times> EmbeddedFile list \<times> error option) option" where
  "parseMultipartMixed L msg boundary = mixedLoop L (mp_parts msg) (mp_end msg) '''' '''' [] []"

section \<open>Entry point\<close>

text \<open>
  \<open>ParseEmail\<close> returns the pointer to the email (\<open>None\<close> for nil) and the error. In the
  \<open>text/plain\<close> branch the error of \<open>io.ReadAll\<close> is dropped, as in the source.
\<close>

definition ParseEmail :: "stdlib \<Rightarrow> string \<Rightarrow> (Email option \<times> error option) option" where
  "ParseEmail L r =
     (case ReadMessage L r of
        Inl e \<Rightarrow> Some (None, Some (Library e))
      | Inr (h, msgBody) \<Rightarrow>
          do {
            (email0, e0) \<leftarrow> createEmailFromHeader L h;
            if e0 \<noteq> None then Some (Some email0, e0)
            else
              do {
                let email = email0\<lparr>ContentType := Get h ''Content-Type''\<rparr>;
                (contentType, params, e1) \<leftarrow> parseContentType L (ContentType email);
                if e1 \<noteq> None then Some (Some email, e1)
                else if contentType = contentTypeMultipartMixed then
                  do {
                    (tb, hb, at, ef, e) \<leftarrow>
                      parseMultipartMixed L msgBody (lookup params ''boundary'');
                    Some (Some (email\<lparr>TextBody := tb, HTMLBody := hb, Attachments := at,
                                        EmbeddedFiles := ef\<rparr>), e)
                  }
                else if contentType = contentTypeMultipartAlternative then
                  do {
                    (tb, hb, ef, e) \<leftarrow>
                      parseMultipartAlternative L msgBody (lookup params ''boundary'');
                    Some (Some (email\<lparr>TextBody := tb, HTMLBody := hb, EmbeddedFiles := ef\<rparr>), e)
                  }
                else if contentType = contentTypeMultipartRelated then
                  do {
                    (tb, hb, ef, e) \<leftarrow>
                      parseMultipartRelated L msgBody (lookup params ''boundary'');
                    Some (Some (email\<lparr>TextBody := tb, HTMLBody := hb, EmbeddedFiles := ef\<rparr>), e)
                  }
                else if contentType = contentTypeTextPlain then
                  do {
                    ((newPart, e), st) \<leftarrow>
                      decodeContent L (raw msgBody) (Get h ''Content-Transfer-Encoding'')
                        (Get h ''Content-Type'');
                    if e \<noteq> None then Some (Some email, e)
                    else
                      do {
                        np \<leftarrow> newPart;
                        (case ReadAll L np st of
                           ((message, e'), st') \<Rightarrow>
                             Some (Some (email\<lparr>TextBody := TrimSuffix message [LF]\<rparr>), None))
                      }
                  }
                else if contentType = contentTypeTextHtml then
                  do {
                    ((newPart, e), st) \<leftarrow>
                      decodeContent L (raw msgBody) (Get h ''Content-Transfer-Encoding'')
                        (Get h ''Content-Type'');
                    if e \<noteq> None then Some (Some email, e)
                    else
                      do {
                        np \<leftarrow> newPart;
                        (case ReadAll L np st of
                           ((message, Some e'), st') \<Rightarrow> Some (Some email, Some (Library e'))
                         | ((message, None), st') \<Rightarrow>
                             Some (Some (email\<lparr>HTMLBody := TrimSuffix message [LF]\<rparr>), None))
                      }
                  }
                else
                  do {
                    ((c, e), st) \<leftarrow>
                      decodeContent L (raw msgBody) (Get h ''Content-Transfer-Encoding'')
                        (Get h ''Content-Type'');
                    Some (Some (email\<lparr>Content := c\<rparr>), e)
                  }
              }
          })"

section \<open>A table of library results\<close>

text \<open>
  To run the parser on concrete inputs, \<open>sample_stdlib\<close> tabulates what the Go library
  returns on the inputs that the examples below reach. Outside the table an entry is the
  error \<open>untabulated\<close>, which stands for no Go result; no example reaches it.
  \<^item> On strings of ASCII bytes, which is what the examples hold, \<open>strings.ToLower\<close>
    lowers the ASCII letters and \<open>strings.TrimSpace\<close> cuts the ASCII white space.
  \<^item> \<open>mail.ReadMessage\<close> splits the header block from the body at the empty line.
  \<^item> \<open>mail.ParseAddressList\<close> accepts a bare \<open>addr-spec\<close>; for a phrase that no
    angle bracket follows it fails with \<open>mail: no angle-addr\<close>.
  \<^item> \<open>time.Parse\<close> fails on \<open>yesterday\<close> with every layout, at the first element \<open>Mon\<close>.
  \<^item> \<open>WordDecoder.Decode\<close> fails with \<open>errInvalidWord\<close> on every word that does not
    begin with \<open>=?\<close> and end with \<open>?=\<close>.
  \<^item> The three encoded words of the test subject decode to their UTF-8 text.
  \<^item> The standard base64 text \<open>aGVsbG8=\<close> decodes to \<open>hello\<close>.
  \<^item> The four single-byte codecs leave the ASCII bytes as they are.
  \<^item> No part of the examples declares a file name, and the clock reads
    1700000000000000000 nanoseconds.
\<close>

text \<open>
  The three encoded words of the subject in the repository's test
  \<open>Email with multiline UTF-8 subject and quoted-printable encoding\<close>, and the UTF-8 bytes
  that Q-decoding gives for each (\<open>=XX\<close> is the byte \<open>XX\<close>, \<open>_\<close> is a space).
\<close>

definition subject_word1 :: string where
  "subject_word1 = ''=?utf-8?Q?=D0=9D=D0=BE=D0=B2=D1=8B=D0=B9_=D1=81=D1=87?=''"

definition subject_word2 :: string where
  "subject_word2 = ''=?utf-8?Q?=D0=B5=D1=82_=D0=B2?=''"

definition subject_word3 :: string where
  "subject_word3 = ''=?utf-8?Q?=D0=B7=D0=B0=D0=BA=D0=B0=D0=B7=D0=B5_=E2=84=96?=''"

definition subject_text1 :: string where
  "subject_text1 =
     [CHR 0xD0, CHR 0x9D, CHR 0xD0, CHR 0xBE, CHR 0xD0, CHR 0xB2, CHR 0xD1, CHR 0x8B,
      CHR 0xD0, CHR 0xB9, CHR 0x20, CHR 0xD1, CHR 0x81, CHR 0xD1, CHR 0x87]"

definition subject_text2 :: string where
  "subject_text2 = [CHR 0xD0, CHR 0xB5, CHR 0xD1, CHR 0x82, CHR 0x20, CHR 0xD0, CHR 0xB2]"

definition subject_text3 :: string where
  "subject_text3 =
     [CHR 0xD0, CHR 0xB7, CHR 0xD0, CHR 0xB0, CHR 0xD0, CHR 0xBA, CHR 0xD0, CHR 0xB0,
      CHR 0xD0, CHR 0xB7, CHR 0xD0, CHR 0xB5, CHR 0x20, CHR 0xE2, CHR 0x84, CHR 0x96]"

text \<open>The subject of that test as the header holds it, and the subject the test expects.\<close>

definition test_subject :: string where
  "test_subject =
     subject_word1 @ '' '' @ subject_word2 @ '' online '' @ subject_word3 @ '' 1259980''"

definition test_expected :: string where
  "test_expected = subject_text1 @ subject_text2 @ '' online '' @ subject_text3 @ '' 1259980''"

definition untabulated :: liberr where
  "untabulated = ''untabulated''"

definition sample_message :: string where
  "sample_message = ''Content-Type: application/pdf'' @ [CR, LF, CR, LF] @ ''%PDF''"

definition sample_stdlib :: stdlib where
  "sample_stdlib =
     \<lparr>ToLower = asciiLower,
      TrimSpace = asciiTrimSpace,
      ReadMessage = (\<lambda>r.
        if r = sample_message
        then Inr ([(''Content-Type'', [''application/pdf''])], Body (''%PDF'', None) [] None)
        else Inl untabulated),
      ParseAddress = (\<lambda>s. Inl untabulated),
      ParseAddressList = (\<lambda>s.
        if s = ''recipient@example.com''
        then Inr [\<lparr>Name = '''', Address = ''recipient@example.com''\<rparr>]
        else if s = ''not an address'' then Inl ''mail: no angle-addr''
        else Inl untabulated),
      time_Parse = (\<lambda>layout s.
        if s = ''yesterday'' \<and> layout \<in> set formats
        then Inl (''parsing time '' @ [DQUOTE] @ s @ [DQUOTE] @ '' as '' @ [DQUOTE] @ layout
                  @ [DQUOTE] @ '': cannot parse '' @ [DQUOTE] @ s @ [DQUOTE] @ '' as ''
                  @ [DQUOTE] @ ''Mon'' @ [DQUOTE])
        else Inl untabulated),
      ParseMediaType = (\<lambda>s.
        if s = ''text/plain'' then (''text/plain'', Map.empty, None)
        else if s = ''application/pdf'' then (''application/pdf'', Map.empty, None)
        else if s = ''multipart/alternative; boundary=inner''
        then (''multipart/alternative'', [''boundary'' \<mapsto> ''inner''], None)
        else ('''', Map.empty, Some untabulated)),
      WordDecoder_Decode = (\<lambda>w.
        if \<not> (HasPrefix w ''=?'' \<and> HasSuffix w ''?='')
        then Inl ''mime: invalid RFC 2047 encoded-word''
        else if w = subject_word1 then Inr subject_text1
        else if w = subject_word2 then Inr subject_text2
        else if w = subject_word3 then Inr subject_text3
        else Inl untabulated),
      base64_DecodeString = (\<lambda>s. Inl untabulated),
      base64_ReadAll = (\<lambda>st.
        if st = (''aGVsbG8='', None) then Inr ''hello'' else Inl untabulated),
      quotedprintable_ReadAll = (\<lambda>st. Inl untabulated),
      charmap_table = (\<lambda>cm b. [b]),
      Part_FileName = (\<lambda>h. ''''),
      UnixNano = 1700000000000000000,
      Sprintf_d = (\<lambda>n. if n = 1700000000000000000 then ''1700000000000000000'' else untabulated)\<rparr>"

section \<open>Example inputs\<close>

text \<open>A \<open>text/plain\<close> part without transfer encoding, and one encoded in base64.\<close>

definition plain_header :: header where
  "plain_header = [(''Content-Type'', [''text/plain''])]"

definition plain_body :: "string \<Rightarrow> body" where
  "plain_body s = Body (s, None) [] None"

definition base64_header :: header where
  "base64_header =
     [(''Content-Type'', [''text/plain'']), (''Content-Transfer-Encoding'', [''base64''])]"

definition base64_body :: body where
  "base64_body = Body (''aGVsbG8='', None) [] None"

text \<open>A \<open>multipart/alternative\<close> part that holds one \<open>text/plain\<close> part.\<close>

definition alternative_header :: header where
  "alternative_header = [(''Content-Type'', [''multipart/alternative; boundary=inner''])]"

definition alternative_body :: "string \<Rightarrow> body" where
  "alternative_body s = Body ('''', None) [(plain_header, plain_body s)] None"

text \<open>A header whose \<open>From\<close> field is no address list and whose \<open>To\<close> field is one.\<close>

definition bad_from_header :: header where
  "bad_from_header =
     [(''From'', [''not an address'']), (''To'', [''recipient@example.com''])]"

text \<open>An \<open>application/octet-stream\<close> part in base64, without a file name.\<close>

definition octet_header :: header where
  "octet_header =
     [(''Content-Type'', [''application/octet-stream'']),
      (''Content-Transfer-Encoding'', [''base64''])]"

section \<open>Facts about the string functions\<close>

lemma Split_aux_nonempty: "Split_aux sep cur s \<noteq> []"
  by (induction sep cur s rule: Split_aux.induct) auto

lemma Split_aux_two:
  "sep \<noteq> [] \<Longrightarrow> Contains s sep \<Longrightarrow> 2 \<le> length (Split_aux sep cur s)"
proof (induction sep cur s rule: Split_aux.induct)
  case (1 sep cur)
  then show ?case by simp
next
  case (2 sep cur c cs)
  show ?case
  proof (cases "HasPrefix (c # cs) sep")
    case True
    have "1 \<le> length (Split_aux sep [] (drop (length sep) (c # cs)))"
      using Split_aux_nonempty [of sep "[]" "drop (length sep) (c # cs)"]
      by (cases "Split_aux sep [] (drop (length sep) (c # cs))") simp_all
    with True "2.prems" show ?thesis by simp
  next
    case False
    with "2.prems" have "Contains cs sep" by simp
    with False "2.prems" "2.IH"(2) show ?thesis by simp
  qed
qed

lemma index_Split_one:
  "sep \<noteq> [] \<Longrightarrow> Contains s sep \<Longrightarrow> index (Split s sep) 1 = Some (Split s sep ! 1)"
  using Split_aux_two [of sep s "[]"] by (simp add: index_def Split_def)

lemma index_Split_zero: "sep \<noteq> [] \<Longrightarrow> index (Split s sep) 0 = Some (Split s sep ! 0)"
  using Split_aux_nonempty [of sep "[]" s] by (simp add: index_def Split_def)

lemma sample_strings:
  "ToLower sample_stdlib = asciiLower"
  "TrimSpace sample_stdlib = asciiTrimSpace"
  by (simp_all add: sample_stdlib_def)

text \<open>The rules that evaluate the string functions on concrete inputs.\<close>

lemmas go_eval =
  HasPrefix_def HasSuffix_def sample_strings asciiLower_def lower_byte_def upper_byte_def
  Split_def Trim_def
  asciiTrimSpace_def TrimSuffix_def asciiSpace_def LF_def CR_def DQUOTE_def index_def Get_def
  CanonicalMIMEHeaderKey_def charsetCutset_def decoders_def prefixLen_def lookup_def
  contentTypeMultipartMixed_def contentTypeMultipartAlternative_def
  contentTypeMultipartRelated_def contentTypeTextHtml_def contentTypeTextPlain_def
  formats_def RFC1123Z_def

section \<open>Charset decoding never panics\<close>

lemma decodeCharset_eq:
  "decodeCharset L content ct =
     Some (if Contains ct ''; charset='' then
             (case decoders (ToLower L (Trim (Split ct ''; charset='' ! 1) charsetCutset)) of
                Some cm \<Rightarrow> CharmapReader cm content
              | None \<Rightarrow> content)
           else content)"
proof (cases "Contains ct ''; charset=''")
  case True
  then have "index (Split ct ''; charset='') 1 = Some (Split ct ''; charset='' ! 1)"
    by (intro index_Split_one) simp_all
  with True show ?thesis
    by (auto simp add: decodeCharset_def decoders_def split: option.splits)
next
  case False
  then show ?thesis by (simp add: decodeCharset_def decoders_def)
qed

lemma decodeCharset_Some: "\<exists>r. decodeCharset L content ct = Some r"
  by (simp add: decodeCharset_eq)

lemma decoders_dom:
  "decoders name \<noteq> None \<longleftrightarrow>
     name \<in> {''windows-1252'', ''iso-8859-1'', ''koi8-r'', ''windows-1251''}"
  by (simp add: decoders_def)

section \<open>Charset transcoder\<close>

lemma ReadAll_CharmapReader:
  "fst (fst (ReadAll L (CharmapReader cm r) st))
     = concat (map (charmap_table L cm) (fst (fst (ReadAll L r st)))) \<and>
   snd (fst (ReadAll L (CharmapReader cm r) st)) = snd (fst (ReadAll L r st)) \<and>
   snd (ReadAll L (CharmapReader cm r) st) = snd (ReadAll L r st)"
  by (cases "ReadAll L r st") auto

text \<open>
  C7. \<open>decodeCharset\<close> is total: it returns a reader for every reader and every content-type
  string, and never panics on \<open>split[1]\<close>. When the string contains \<open>; charset=\<close> and the
  name taken after it (trimmed, then lowered by \<open>strings.ToLower\<close>) is one of windows-1252,
  iso-8859-1, koi8-r and windows-1251, the result is the decoder of that codec around the
  content. Reading that decoder gives the table entry of every byte that the content
  yields and exactly the error that reading the content gives, so over a byte buffer it
  gives no error. In every other case the result is the content itself. The table of a
  codec is the library's; it has an entry for every byte.
\<close>

theorem decodeCharset_total:
  "(let name = ToLower L (Trim (Split ct ''; charset='' ! 1) charsetCutset);
        known = (Contains ct ''; charset='' \<and>
                 name \<in> {''windows-1252'', ''iso-8859-1'', ''koi8-r'', ''windows-1251''})
    in (\<exists>r. decodeCharset L content ct = Some r) \<and>
       (known \<longrightarrow>
          (\<exists>cm. decoders name = Some cm \<and>
                decodeCharset L content ct = Some (CharmapReader cm content) \<and>
                (\<forall>st. fst (fst (ReadAll L (CharmapReader cm content) st))
                        = concat (map (charmap_table L cm) (fst (fst (ReadAll L content st)))) \<and>
                      snd (fst (ReadAll L (CharmapReader cm content) st))
                        = snd (fst (ReadAll L content st))) \<and>
                (\<forall>b st. ReadAll L (CharmapReader cm (BytesReader b)) st =
                          ((concat (map (charmap_table L cm) b), None), st)))) \<and>
       (\<not> known \<longrightarrow> decodeCharset L content ct = Some content)) \<and>
   decoders ''windows-1252'' = Some Windows1252 \<and>
   decoders ''iso-8859-1'' = Some ISO8859_1 \<and>
   decoders ''koi8-r'' = Some KOI8R \<and>
   decoders ''windows-1251'' = Some Windows1251"
proof -
  let ?name = "ToLower L (Trim (Split ct ''; charset='' ! 1) charsetCutset)"
  have tab: "decoders ''windows-1252'' = Some Windows1252"
    "decoders ''iso-8859-1'' = Some ISO8859_1"
    "decoders ''koi8-r'' = Some KOI8R"
    "decoders ''windows-1251'' = Some Windows1251"
    by (simp_all add: decoders_def)
  have known: "\<exists>cm. decoders ?name = Some cm \<and>
          decodeCharset L content ct = Some (CharmapReader cm content)"
    if "Contains ct ''; charset=''"
      and "?name \<in> {''windows-1252'', ''iso-8859-1'', ''koi8-r'', ''windows-1251''}"
  proof -
    from that(2) obtain cm where "decoders ?name = Some cm"
      using decoders_dom [of ?name] by auto
    with that(1) show ?thesis by (simp add: decodeCharset_eq)
  qed
  have other: "decodeCharset L content ct = Some content"
    if "\<not> (Contains ct ''; charset='' \<and>
            ?name \<in> {''windows-1252'', ''iso-8859-1'', ''koi8-r'', ''windows-1251''})"
  proof (cases "Contains ct ''; charset=''")
    case True
    with that have "decoders ?name = None" using decoders_dom [of ?name] by blast
    with True show ?thesis by (simp add: decodeCharset_eq)
  next
    case False
    then show ?thesis by (simp add: decodeCharset_eq)
  qed
  have reading: "fst (fst (ReadAll L (CharmapReader cm content) st))
        = concat (map (charmap_table L cm) (fst (fst (ReadAll L content st)))) \<and>
      snd (fst (ReadAll L (CharmapReader cm content) st)) = snd (fst (ReadAll L content st))"
    for cm st
    using ReadAll_CharmapReader [of L cm content st] by simp
  show ?thesis
    unfolding Let_def
    using known other tab reading decodeCharset_Some [of L content ct] by auto
qed

theorem decodeCharset_total_witness:
  "Contains ''text/plain; charset=KOI8-R'' ''; charset='' \<and>
   decodeCharset sample_stdlib (BytesReader ''abc'') ''text/plain; charset=KOI8-R''
     = Some (CharmapReader KOI8R (BytesReader ''abc'')) \<and>
   ReadAll sample_stdlib (CharmapReader KOI8R (BytesReader ''abc'')) ('''', None)
     = ((''abc'', None), ('''', None)) \<and>
   \<not> Contains ''text/plain'' ''; charset='' \<and>
   decodeCharset sample_stdlib (BytesReader ''abc'') ''text/plain''
     = Some (BytesReader ''abc'')"
proof -
  have c1: "Contains ''text/plain; charset=KOI8-R'' ''; charset=''"
    by (simp add: HasPrefix_def)
  have n1: "ToLower sample_stdlib
              (Trim (Split ''text/plain; charset=KOI8-R'' ''; charset='' ! 1) charsetCutset)
            = ''koi8-r''"
    by (simp add: go_eval)
  have c2: "\<not> Contains ''text/plain'' ''; charset=''"
    by (simp add: HasPrefix_def)
  have t: "concat (map (charmap_table sample_stdlib KOI8R) ''abc'') = ''abc''"
    by (simp add: sample_stdlib_def)
  from decodeCharset_total [where ct = "''text/plain; charset=KOI8-R''" and L = sample_stdlib
        and content = "BytesReader ''abc''"]
    decodeCharset_total [where ct = "''text/plain''" and L = sample_stdlib
        and content = "BytesReader ''abc''"]
  show ?thesis
    unfolding Let_def n1 using c1 c2 t by (auto simp add: decoders_def)
qed

section \<open>Transfer-encoding decoder\<close>

lemma decodeContent_unknown:
  "(\<exists>x st. decodeContent L content encoding ct = Some ((None, Some (UnknownEncoding x)), st))
   \<longleftrightarrow> ToLower L encoding \<notin> {''base64'', ''quoted-printable'', ''7bit'', ''8bit'', ''''}"
  by (auto simp add: decodeContent_def decodeCharset_eq Let_def
      split: sum.splits prod.splits option.splits)

lemma decodeContent_same_lower:
  "ToLower L encoding \<in> {''base64'', ''quoted-printable'', ''7bit'', ''8bit'', ''''} \<Longrightarrow>
   ToLower L encoding' = ToLower L encoding \<Longrightarrow>
   decodeContent L content encoding' ct = decodeContent L content encoding ct"
  by (auto simp add: decodeContent_def Let_def)

lemma decodeContent_reader:
  "decodeContent L content encoding ct = Some ((r, None), st) \<Longrightarrow> r \<noteq> None"
  by (auto simp add: decodeContent_def decodeCharset_eq Let_def
      split: sum.splits prod.splits option.splits if_splits)

lemma decodeContent_Some: "\<exists>res. decodeContent L content encoding ct = Some res"
  by (auto simp add: decodeContent_def decodeCharset_eq Let_def
      split: sum.splits prod.splits option.splits)

text \<open>
  C8. \<open>decodeContent\<close> dispatches on the encoding as \<open>strings.ToLower\<close> lowers it. It
  returns the error \<open>unknown encoding\<close> exactly when the lowered value is none of base64,
  quoted-printable, 7bit, 8bit and the empty string. For these five values two spellings
  with the same lowered value give the same result, and the only errors are those of the
  decoder or of the stream: base64 and quoted-printable decode what the stream yields,
  7bit and 8bit read it unchanged into a buffer, the empty string leaves the stream
  unread; each result then goes through \<open>decodeCharset\<close>.
\<close>

theorem decodeContent_dispatch:
  "(let enc = ToLower L encoding;
        recognised = (enc \<in> {''base64'', ''quoted-printable'', ''7bit'', ''8bit'', ''''})
    in ((\<exists>x st. decodeContent L content encoding ct
                  = Some ((None, Some (UnknownEncoding x)), st)) \<longleftrightarrow> \<not> recognised) \<and>
       (\<not> recognised \<longrightarrow>
          decodeContent L content encoding ct
            = Some ((None, Some (UnknownEncoding encoding)), content)) \<and>
       (recognised \<longrightarrow>
          (\<forall>encoding'. ToLower L encoding' = enc \<longrightarrow>
             decodeContent L content encoding' ct = decodeContent L content encoding ct)) \<and>
       (enc = ''base64'' \<longrightarrow>
          decodeContent L content encoding ct =
            (case base64_ReadAll L content of
               Inl e \<Rightarrow> Some ((None, Some (Library e)), ([], snd content))
             | Inr b \<Rightarrow>
                 Some ((decodeCharset L (BytesReader b) ct, None), ([], snd content)))) \<and>
       (enc = ''quoted-printable'' \<longrightarrow>
          decodeContent L content encoding ct =
            (case quotedprintable_ReadAll L content of
               Inl e \<Rightarrow> Some ((None, Some (Library e)), ([], snd content))
             | Inr b \<Rightarrow>
                 Some ((decodeCharset L (BytesReader b) ct, None), ([], snd content)))) \<and>
       (enc = ''7bit'' \<or> enc = ''8bit'' \<longrightarrow>
          decodeContent L content encoding ct =
            (case snd content of
               Some e \<Rightarrow> Some ((None, Some (Library e)), ([], snd content))
             | None \<Rightarrow>
                 Some ((decodeCharset L (BytesReader (fst content)) ct, None),
                       ([], snd content)))) \<and>
       (enc = '''' \<longrightarrow>
          decodeContent L content encoding ct
            = Some ((decodeCharset L Stream ct, None), content)))"
proof -
  have unknown: "decodeContent L content encoding ct
      = Some ((None, Some (UnknownEncoding encoding)), content)"
    if "ToLower L encoding \<notin> {''base64'', ''quoted-printable'', ''7bit'', ''8bit'', ''''}"
    using that by (simp add: decodeContent_def Let_def)
  have b64: "decodeContent L content encoding ct =
      (case base64_ReadAll L content of
         Inl e \<Rightarrow> Some ((None, Some (Library e)), ([], snd content))
       | Inr b \<Rightarrow> Some ((decodeCharset L (BytesReader b) ct, None), ([], snd content)))"
    if "ToLower L encoding = ''base64''"
    using that by (simp add: decodeContent_def decodeCharset_eq Let_def split: sum.splits)
  have qp: "decodeContent L content encoding ct =
      (case quotedprintable_ReadAll L content of
         Inl e \<Rightarrow> Some ((None, Some (Library e)), ([], snd content))
       | Inr b \<Rightarrow> Some ((decodeCharset L (BytesReader b) ct, None), ([], snd content)))"
    if "ToLower L encoding = ''quoted-printable''"
    using that by (simp add: decodeContent_def decodeCharset_eq Let_def split: sum.splits)
  have bits: "decodeContent L content encoding ct =
      (case snd content of
         Some e \<Rightarrow> Some ((None, Some (Library e)), ([], snd content))
       | None \<Rightarrow>
           Some ((decodeCharset L (BytesReader (fst content)) ct, None), ([], snd content)))"
    if "ToLower L encoding = ''7bit'' \<or> ToLower L encoding = ''8bit''"
    using that
    by (cases content)
       (auto simp add: decodeContent_def decodeCharset_eq Let_def split: option.splits)
  have empty: "decodeContent L content encoding ct
      = Some ((decodeCharset L Stream ct, None), content)"
    if "ToLower L encoding = ''''"
    using that by (simp add: decodeContent_def decodeCharset_eq Let_def)
  have same: "decodeContent L content encoding' ct = decodeContent L content encoding ct"
    if "ToLower L encoding \<in> {''base64'', ''quoted-printable'', ''7bit'', ''8bit'', ''''}"
      and "ToLower L encoding' = ToLower L encoding" for encoding'
    using that by (rule decodeContent_same_lower)
  show ?thesis
    unfolding Let_def
    using decodeContent_unknown [of L content encoding ct] unknown b64 qp bits empty same
    by blast
qed

theorem decodeContent_dispatch_witness:
  "ToLower sample_stdlib ''Base64'' = ''base64'' \<and>
   decodeContent sample_stdlib (''aGVsbG8='', None) ''Base64'' ''text/plain''
     = Some ((Some (BytesReader ''hello''), None), ([], None)) \<and>
   ToLower sample_stdlib ''BASE64'' = ''base64'' \<and>
   decodeContent sample_stdlib (''aGVsbG8='', None) ''BASE64'' ''text/plain''
     = Some ((Some (BytesReader ''hello''), None), ([], None)) \<and>
   decodeContent sample_stdlib (''aGVsbG8='', None) ''8BIT'' ''text/plain''
     = Some ((Some (BytesReader ''aGVsbG8=''), None), ([], None)) \<and>
   decodeContent sample_stdlib (''aGVsbG8='', None) '''' ''text/plain''
     = Some ((Some Stream, None), (''aGVsbG8='', None)) \<and>
   ToLower sample_stdlib ''x-uuencode''
     \<notin> {''base64'', ''quoted-printable'', ''7bit'', ''8bit'', ''''} \<and>
   decodeContent sample_stdlib (''aGVsbG8='', None) ''x-uuencode'' ''text/plain''
     = Some ((None, Some (UnknownEncoding ''x-uuencode'')), (''aGVsbG8='', None))"
proof -
  have l1: "ToLower sample_stdlib ''Base64'' = ''base64''"
    and l2: "ToLower sample_stdlib ''8BIT'' = ''8bit''"
    and l3: "ToLower sample_stdlib '''' = ''''"
    and l4: "ToLower sample_stdlib ''x-uuencode'' = ''x-uuencode''"
    and l5: "ToLower sample_stdlib ''BASE64'' = ''base64''"
    by (simp_all add: sample_strings asciiLower_def lower_byte_def)
  have b: "base64_ReadAll sample_stdlib (''aGVsbG8='', None) = Inr ''hello''"
    by (simp add: sample_stdlib_def)
  have c: "decodeCharset sample_stdlib r ''text/plain'' = Some r" for r
    by (simp add: decodeCharset_eq HasPrefix_def)
  let ?c = "(''aGVsbG8='', None) :: stream"
  note d1 = decodeContent_dispatch [where encoding = "''Base64''" and L = sample_stdlib
      and content = ?c and ct = "''text/plain''", unfolded Let_def l1]
  have e1: "decodeContent sample_stdlib ?c ''Base64'' ''text/plain''
      = Some ((Some (BytesReader ''hello''), None), ([], None))"
    using d1 by (elim conjE) (simp add: b c)
  have r1: "''base64'' \<in> {''base64'', ''quoted-printable'', ''7bit'', ''8bit'', ''''}"
    by simp
  have e5: "decodeContent sample_stdlib ?c ''BASE64'' ''text/plain''
      = decodeContent sample_stdlib ?c ''Base64'' ''text/plain''"
    by (rule d1 [THEN conjunct2, THEN conjunct2, THEN conjunct1, rule_format, OF r1 l5])
  have e2: "decodeContent sample_stdlib ?c ''8BIT'' ''text/plain''
      = Some ((Some (BytesReader ''aGVsbG8=''), None), ([], None))"
    using decodeContent_dispatch [where encoding = "''8BIT''" and L = sample_stdlib
        and content = ?c and ct = "''text/plain''"]
    unfolding Let_def l2 by (elim conjE) (simp add: c)
  have e3: "decodeContent sample_stdlib ?c '''' ''text/plain''
      = Some ((Some Stream, None), ?c)"
    using decodeContent_dispatch [where encoding = "''''" and L = sample_stdlib
        and content = ?c and ct = "''text/plain''"]
    unfolding Let_def l3 by (elim conjE) (simp add: c)
  have e4: "decodeContent sample_stdlib ?c ''x-uuencode'' ''text/plain''
      = Some ((None, Some (UnknownEncoding ''x-uuencode'')), ?c)"
    using decodeContent_dispatch [where encoding = "''x-uuencode''" and L = sample_stdlib
        and content = ?c and ct = "''text/plain''"]
    unfolding Let_def l4 by (elim conjE) simp
  show ?thesis
    unfolding l1 l4 l5 e5 e1 e2 e3 e4 by simp
qed

section \<open>Header field parser\<close>

lemma parseTimeLoop_err:
  "err (snd (parseTimeLoop L fs s (t, hp))) \<noteq> None \<longleftrightarrow>
     (if fs = [] then err hp \<noteq> None else \<forall>format \<in> set fs. isl (time_Parse L format s))"
proof (induction fs arbitrary: t hp)
  case Nil
  show ?case by simp
next
  case (Cons f fs)
  show ?case
  proof (cases "time_Parse L f s")
    case (Inl e)
    then show ?thesis using Cons.IH [of 0 "hp\<lparr>err := Some (Library e)\<rparr>"] by simp
  next
    case (Inr t')
    then show ?thesis by simp
  qed
qed

lemma createEmailFromHeader_no_error:
  "createEmailFromHeader L h = Some (email, e) \<Longrightarrow> e = None"
  by (auto simp add: createEmailFromHeader_def decodeHeaderMime_def Let_def
      split: Option.bind_splits)

lemma createEmailFromHeader_Date:
  "createEmailFromHeader L h = Some (email, e) \<Longrightarrow>
   Date email = fst (parseTime L \<lparr>header = h, err = None\<rparr> (Get h ''Date'')) \<and>
   ResentDate email = fst (parseTime L \<lparr>header = h, err = None\<rparr> (Get h ''Resent-Date''))"
  by (auto simp add: createEmailFromHeader_def decodeHeaderMime_def Let_def
      split: Option.bind_splits)

text \<open>
  C10. For an empty date string \<open>parseTime\<close> returns the zero time and leaves the error
  slot of its receiver as it was. Starting from an empty slot, the slot is set when the
  method returns exactly when the string is not empty and \<open>time.Parse\<close> fails on it with
  each of the four formats. A header without \<open>Date\<close> and \<open>Resent-Date\<close> gives zero
  times, and the header decoding returns no error.
\<close>

theorem parseTime_absent_date:
  "parseTime L hp '''' = (0, hp) \<and>
   (err hp = None \<longrightarrow>
      (err (snd (parseTime L hp s)) \<noteq> None \<longleftrightarrow>
         s \<noteq> '''' \<and> (\<forall>format \<in> set formats. isl (time_Parse L format s)))) \<and>
   length formats = 4 \<and>
   (Get h ''Date'' = '''' \<and> Get h ''Resent-Date'' = '''' \<longrightarrow>
      (\<forall>email e. createEmailFromHeader L h = Some (email, e) \<longrightarrow>
         e = None \<and> Date email = 0 \<and> ResentDate email = 0))"
proof -
  have a: "parseTime L hp '''' = (0, hp)"
    by (simp add: parseTime_def)
  have b: "err (snd (parseTime L hp s)) \<noteq> None \<longleftrightarrow>
      s \<noteq> '''' \<and> (\<forall>format \<in> set formats. isl (time_Parse L format s))"
    if "err hp = None"
  proof (cases "s = ''''")
    case True
    with that show ?thesis by (simp add: parseTime_def)
  next
    case False
    have "formats \<noteq> []" by (simp add: formats_def)
    with False that show ?thesis
      using parseTimeLoop_err [of L formats s 0 hp] by (simp add: parseTime_def)
  qed
  have c: "e = None \<and> Date email = 0 \<and> ResentDate email = 0"
    if "Get h ''Date'' = ''''" "Get h ''Resent-Date'' = ''''"
      "createEmailFromHeader L h = Some (email, e)" for email e
    using that createEmailFromHeader_no_error [of L h email e]
      createEmailFromHeader_Date [of L h email e]
    by (simp add: parseTime_def)
  have d: "length formats = 4" by (simp add: formats_def)
  from a b c d show ?thesis by blast
qed

theorem parseTime_absent_date_witness:
  "err \<lparr>header = [], err = None\<rparr> = None \<and>
   err (snd (parseTime sample_stdlib \<lparr>header = [], err = None\<rparr> ''yesterday'')) \<noteq> None \<and>
   parseTime sample_stdlib \<lparr>header = [], err = None\<rparr> '''' = (0, \<lparr>header = [], err = None\<rparr>) \<and>
   Get [] ''Date'' = '''' \<and> Get [] ''Resent-Date'' = '''' \<and>
   (\<exists>email. createEmailFromHeader sample_stdlib [] = Some (email, None) \<and>
      Date email = 0 \<and> ResentDate email = 0)"
proof -
  let ?hp = "\<lparr>header = [], err = None\<rparr>"
  have f: "\<forall>format \<in> set formats. isl (time_Parse sample_stdlib format ''yesterday'')"
    by (simp add: sample_stdlib_def)
  have g: "Get [] ''Date'' = ''''" "Get [] ''Resent-Date'' = ''''"
    by (simp_all add: Get_def)
  have w: "WordDecoder_Decode sample_stdlib '''' = Inl ''mime: invalid RFC 2047 encoded-word''"
    by (simp add: sample_stdlib_def HasPrefix_def)
  have s: "decodeMimeSentence sample_stdlib '''' = Some ''''"
    by (simp add: decodeMimeSentence_def decodeKoi8_def HasPrefix_def sample_strings
        asciiLower_def Split_def w)
  then obtain email e where c: "createEmailFromHeader sample_stdlib [] = Some (email, e)"
    by (simp add: createEmailFromHeader_def decodeHeaderMime_def Let_def g Get_def)
  from parseTime_absent_date [of sample_stdlib ?hp "''yesterday''" "[]"] f g c
  show ?thesis by auto
qed

section \<open>The raw content of a message\<close>

lemma createEmailFromHeader_bodies:
  "createEmailFromHeader L h = Some (email, e) \<Longrightarrow>
   Content email = None \<and> TextBody email = '''' \<and> HTMLBody email = '''' \<and>
   Attachments email = [] \<and> EmbeddedFiles email = []"
  by (auto simp add: createEmailFromHeader_def decodeHeaderMime_def Let_def
      split: Option.bind_splits)

text \<open>
  C9. When \<open>ParseEmail\<close> returns an email and no error, \<open>Content\<close> is set exactly when the
  media type of the message is none of multipart/mixed, multipart/alternative,
  multipart/related, text/plain and text/html; and when \<open>Content\<close> is set, \<open>TextBody\<close> and
  \<open>HTMLBody\<close> are empty and there are no attachments and no embedded files.
\<close>

theorem ParseEmail_Content:
  assumes "ParseEmail L r = Some (Some email, None)"
    and "ReadMessage L r = Inr (h, msgBody)"
    and "parseContentType L (Get h ''Content-Type'') = Some (contentType, params, e)"
  shows "(Content email \<noteq> None \<longleftrightarrow>
            contentType \<notin> {contentTypeMultipartMixed, contentTypeMultipartAlternative,
                            contentTypeMultipartRelated, contentTypeTextPlain,
                            contentTypeTextHtml}) \<and>
         (Content email \<noteq> None \<longrightarrow>
            TextBody email = '''' \<and> HTMLBody email = '''' \<and>
            Attachments email = [] \<and> EmbeddedFiles email = [])"
proof -
  from assms(1,2) obtain email0 where
    c: "createEmailFromHeader L h = Some (email0, None)"
    by (auto simp add: ParseEmail_def split: Option.bind_splits if_splits)
  note z = createEmailFromHeader_bodies [OF c]
  let ?email = "email0\<lparr>ContentType := Get h ''Content-Type''\<rparr>"
  from assms(1,2,3) c have e: "e = None"
    by (auto simp add: ParseEmail_def Let_def split: if_splits)
  consider (mixed) "contentType = contentTypeMultipartMixed"
    | (alt) "contentType = contentTypeMultipartAlternative"
    | (rel) "contentType = contentTypeMultipartRelated"
    | (plain) "contentType = contentTypeTextPlain"
    | (html) "contentType = contentTypeTextHtml"
    | (other) "contentType \<notin> {contentTypeMultipartMixed, contentTypeMultipartAlternative,
                            contentTypeMultipartRelated, contentTypeTextPlain,
                            contentTypeTextHtml}"
    by auto
  then show ?thesis
  proof cases
    case mixed
    with assms c e z show ?thesis
      by (auto simp add: ParseEmail_def Let_def split: Option.bind_splits)
  next
    case alt
    with assms c e z show ?thesis
      by (auto simp add: ParseEmail_def Let_def go_eval split: Option.bind_splits)
  next
    case rel
    with assms c e z show ?thesis
      by (auto simp add: ParseEmail_def Let_def go_eval split: Option.bind_splits)
  next
    case plain
    with assms c e z show ?thesis
      by (auto simp add: ParseEmail_def Let_def go_eval
          split: Option.bind_splits if_splits prod.splits)
  next
    case html
    with assms c e z show ?thesis
      by (auto simp add: ParseEmail_def Let_def go_eval
          split: Option.bind_splits if_splits prod.splits option.splits)
  next
    case other
    with assms c e z show ?thesis
      by (auto simp add: ParseEmail_def Let_def split: Option.bind_splits
          dest: decodeContent_reader)
  qed
qed

theorem ParseEmail_Content_witness:
  "ReadMessage sample_stdlib sample_message
     = Inr ([(''Content-Type'', [''application/pdf''])], Body (''%PDF'', None) [] None) \<and>
   parseContentType sample_stdlib (Get [(''Content-Type'', [''application/pdf''])] ''Content-Type'')
     = Some (''application/pdf'', Map.empty, None) \<and>
   (\<exists>email. ParseEmail sample_stdlib sample_message = Some (Some email, None) \<and>
      Content email = Some Stream \<and> TextBody email = '''' \<and> HTMLBody email = '''' \<and>
      Attachments email = [] \<and> EmbeddedFiles email = [])"
proof -
  let ?h = "[(''Content-Type'', [''application/pdf''])] :: header"
  let ?b = "Body (''%PDF'', None) [] None"
  have r: "ReadMessage sample_stdlib sample_message = Inr (?h, ?b)"
    by (simp add: sample_stdlib_def)
  have g: "Get ?h ''Content-Type'' = ''application/pdf''"
    "Get ?h ''Content-Transfer-Encoding'' = ''''" "Get ?h ''Subject'' = ''''"
    by (simp_all add: go_eval)
  have s: "sanitizeContentTypeHeader sample_stdlib ''application/pdf'' = Some ''application/pdf''"
    by (simp add: sanitizeContentTypeHeader_def go_eval)
  have t: "ParseMediaType sample_stdlib ''application/pdf''
      = (''application/pdf'', Map.empty, None)"
    by (simp add: sample_stdlib_def)
  have p: "parseContentType sample_stdlib (Get ?h ''Content-Type'')
      = Some (''application/pdf'', Map.empty, None)"
    unfolding g by (simp add: parseContentType_def s t)
  have w: "WordDecoder_Decode sample_stdlib '''' = Inl ''mime: invalid RFC 2047 encoded-word''"
    "WordDecoder_Decode sample_stdlib ''application/pdf''
       = Inl ''mime: invalid RFC 2047 encoded-word''"
    by (simp_all add: sample_stdlib_def HasPrefix_def)
  have m: "decodeMimeSentence sample_stdlib '''' = Some ''''"
    "decodeMimeSentence sample_stdlib ''application/pdf'' = Some ''application/pdf''"
    by (simp_all add: decodeMimeSentence_def decodeKoi8_def w go_eval)
  have "\<exists>email0. createEmailFromHeader sample_stdlib ?h = Some (email0, None)"
    by (simp add: createEmailFromHeader_def decodeHeaderMime_def Let_def g m)
  then obtain email0 where c: "createEmailFromHeader sample_stdlib ?h = Some (email0, None)" ..
  have d: "decodeContent sample_stdlib (''%PDF'', None) '''' ''application/pdf''
      = Some ((Some Stream, None), (''%PDF'', None))"
    by (simp add: decodeContent_def decodeCharset_eq go_eval)
  have "ParseEmail sample_stdlib sample_message
      = Some (Some (email0\<lparr>ContentType := ''application/pdf'', Content := Some Stream\<rparr>), None)"
    by (simp add: ParseEmail_def Let_def r c g p [unfolded g] d go_eval)
  from ParseEmail_Content [OF this r p] this r p show ?thesis
    by (simp add: go_eval)
qed

section \<open>The general path of the header decoder\<close>

text \<open>
  The rule of the loop over the words: a word that decodes is appended as decoded, a word
  that does not decode is appended as it stands, with a space before it unless it is the
  first word.
\<close>

lemma decodeWords_rule:
  "decodeWords L result ws =
     result @ map (\<lambda>(i, w). case WordDecoder_Decode L w of
                                Inr d \<Rightarrow> d
                              | Inl e \<Rightarrow> if i = 0 then w else '' '' @ w)
                (zip [length result ..< length result + length ws] ws)"
proof (induction ws arbitrary: result)
  case Nil
  show ?case by simp
next
  case (Cons w ws)
  have "[length result ..< length result + length (w # ws)]
      = length result # [Suc (length result) ..< Suc (length result) + length ws]"
    by (simp add: upt_rec)
  then show ?case
    using Cons.IH [of "result @ [case WordDecoder_Decode L w of
                                   Inr d \<Rightarrow> d
                                 | Inl e \<Rightarrow> if length result = 0 then w else '' '' @ w]"]
    by (simp add: Let_def)
qed

lemma Join_empty_sep: "Join xs [] = concat xs"
  by (induction xs "[] :: string" rule: Join.induct) simp_all

lemma decodeMimeSentence_general:
  "decodeKoi8 L s = Some (False, x) \<Longrightarrow>
   decodeMimeSentence L s =
     Some (concat (map (\<lambda>(i, w). case WordDecoder_Decode L w of
                                    Inr d \<Rightarrow> d
                                  | Inl e \<Rightarrow> if i = 0 then w else '' '' @ w)
                    (zip [0 ..< length (Split s '' '')] (Split s '' ''))))"
  by (simp add: decodeMimeSentence_def decodeWords_rule Join_empty_sep)

section \<open>Evaluations\<close>

lemma sanitize_text_plain:
  "sanitizeContentTypeHeader sample_stdlib ''text/plain'' = Some ''text/plain''"
  by (simp add: sanitizeContentTypeHeader_def go_eval)

lemma sanitize_alternative:
  "sanitizeContentTypeHeader sample_stdlib ''multipart/alternative; boundary=inner''
     = Some ''multipart/alternative; boundary=inner''"
  by (simp add: sanitizeContentTypeHeader_def go_eval)

lemma sample_media_types:
  "ParseMediaType sample_stdlib ''text/plain'' = (''text/plain'', Map.empty, None)"
  "ParseMediaType sample_stdlib ''multipart/alternative; boundary=inner''
     = (''multipart/alternative'', [''boundary'' \<mapsto> ''inner''], None)"
  by (simp_all add: sample_stdlib_def)

lemma sample_base64: "base64_ReadAll sample_stdlib (''aGVsbG8='', None) = Inr ''hello''"
  by (simp add: sample_stdlib_def)

lemma decodeCharset_no_charset:
  "decodeCharset L r ''text/plain'' = Some r"
  "decodeCharset L r ''application/octet-stream'' = Some r"
  by (simp_all add: decodeCharset_eq HasPrefix_def)

lemma Get_examples:
  "Get plain_header ''Content-Type'' = ''text/plain''"
  "Get plain_header ''Content-Transfer-Encoding'' = ''''"
  "Get base64_header ''Content-Type'' = ''text/plain''"
  "Get base64_header ''Content-Transfer-Encoding'' = ''base64''"
  "Get alternative_header ''Content-Type'' = ''multipart/alternative; boundary=inner''"
  "Get octet_header ''Content-Type'' = ''application/octet-stream''"
  "Get octet_header ''Content-Transfer-Encoding'' = ''base64''"
  by (simp_all add: plain_header_def base64_header_def alternative_header_def octet_header_def
      go_eval)

lemma decodeLeaf_plain:
  "decodeLeaf sample_stdlib (plain_header, plain_body s) = Some (Inr (TrimSuffix s [LF]))"
  by (simp add: decodeLeaf_def Get_examples plain_body_def decodeContent_def
      decodeCharset_no_charset sample_strings asciiLower_def)

lemma decodeLeaf_base64:
  "decodeLeaf sample_stdlib (base64_header, base64_body) = Some (Inr ''hello'')"
  by (simp add: decodeLeaf_def Get_examples base64_body_def decodeContent_def Let_def
      decodeCharset_no_charset sample_base64 sample_strings asciiLower_def lower_byte_def
      TrimSuffix_def
      HasSuffix_def LF_def)

lemma readLeaf_base64: "readLeaf L (base64_header, base64_body) = Inr ''aGVsbG8=''"
  by (simp add: readLeaf_def base64_body_def go_eval)

text \<open>
  C5. One \<open>text/plain\<close> part with \<open>Content-Transfer-Encoding: base64\<close> and the body
  \<open>aGVsbG8=\<close>: the related handler returns the text as it stands, the alternative
  handler returns the decoded \<open>hello\<close>.
\<close>

theorem related_skips_decoding:
  "parseMultipartRelated sample_stdlib
     (Body ('''', None) [(base64_header, base64_body)] None) ''outer''
     = Some (''aGVsbG8='', '''', [], None) \<and>
   parseMultipartAlternative sample_stdlib
     (Body ('''', None) [(base64_header, base64_body)] None) ''outer''
     = Some (''hello'', '''', [], None)"
  by (simp add: parseMultipartRelated_def parseMultipartAlternative_def Get_examples
      sanitize_text_plain sample_media_types contentTypeTextPlain_def
      readLeaf_base64 decodeLeaf_base64)

text \<open>
  C2. A \<open>multipart/mixed\<close> body whose first part is the text \<open>hello\<close> and whose second
  part is a \<open>multipart/alternative\<close> with the text \<open>world\<close>: the text of the first part is
  gone from the result.
\<close>

theorem mixed_overwrites_text:
  "parseMultipartMixed sample_stdlib
     (Body ('''', None)
        [(plain_header, plain_body ''hello''),
         (alternative_header, alternative_body ''world'')] None) ''outer''
     = Some (''world'', '''', [], [], None)"
proof -
  have nested: "parseMultipartAlternative sample_stdlib (alternative_body ''world'') bnd
      = Some (''world'', '''', [], None)" for bnd
    by (simp add: parseMultipartAlternative_def alternative_body_def Get_examples
        sanitize_text_plain sample_media_types contentTypeTextPlain_def decodeLeaf_plain
        TrimSuffix_def HasSuffix_def LF_def)
  have first: "TrimSuffix ''hello'' [LF] = ''hello''"
    by (simp add: go_eval)
  show ?thesis
    by (simp add: parseMultipartMixed_def Get_examples sanitize_text_plain sanitize_alternative
        sample_media_types decodeLeaf_plain nested first
        contentTypeTextPlain_def contentTypeMultipartAlternative_def
        contentTypeMultipartRelated_def lookup_def)
qed

lemma sample_words:
  "WordDecoder_Decode sample_stdlib '''' = Inl ''mime: invalid RFC 2047 encoded-word''"
  "WordDecoder_Decode sample_stdlib ''not'' = Inl ''mime: invalid RFC 2047 encoded-word''"
  "WordDecoder_Decode sample_stdlib ''an'' = Inl ''mime: invalid RFC 2047 encoded-word''"
  "WordDecoder_Decode sample_stdlib ''address'' = Inl ''mime: invalid RFC 2047 encoded-word''"
  "WordDecoder_Decode sample_stdlib ''recipient@example.com''
     = Inl ''mime: invalid RFC 2047 encoded-word''"
  "WordDecoder_Decode sample_stdlib ''online'' = Inl ''mime: invalid RFC 2047 encoded-word''"
  "WordDecoder_Decode sample_stdlib ''1259980'' = Inl ''mime: invalid RFC 2047 encoded-word''"
  by (simp_all add: sample_stdlib_def HasPrefix_def HasSuffix_def)

lemma sample_subject_words:
  "WordDecoder_Decode sample_stdlib subject_word1 = Inr subject_text1"
  "WordDecoder_Decode sample_stdlib subject_word2 = Inr subject_text2"
  "WordDecoder_Decode sample_stdlib subject_word3 = Inr subject_text3"
  by (simp_all add: sample_stdlib_def HasPrefix_def HasSuffix_def subject_word1_def
      subject_word2_def subject_word3_def)

lemma decodeKoi8_no_marker:
  "\<not> HasPrefix (ToLower L s) ''=?koi8-r'' \<Longrightarrow> decodeKoi8 L s = Some (False, '''')"
  by (simp add: decodeKoi8_def)

lemma decodeMimeSentence_plain:
  "decodeMimeSentence sample_stdlib '''' = Some ''''"
  "decodeMimeSentence sample_stdlib ''not an address'' = Some ''not an address''"
  "decodeMimeSentence sample_stdlib ''recipient@example.com'' = Some ''recipient@example.com''"
  by (simp_all add: decodeMimeSentence_def decodeKoi8_def sample_words HasPrefix_def
      sample_strings asciiLower_def lower_byte_def Split_def)

text \<open>
  C3. An attachment part of type \<open>application/octet-stream\<close> with
  \<open>Content-Transfer-Encoding: base64\<close> and the body \<open>aGVsbG8=\<close>: \<open>decodeContent\<close> has read
  the part to its end, so the \<open>io.ReadAll(part)\<close> that follows gets nothing and \<open>Data\<close> is
  an empty buffer, not the raw bytes of the part.
\<close>

theorem octet_stream_data_empty:
  "raw base64_body = (''aGVsbG8='', None) \<and>
   decodeAttachment sample_stdlib (octet_header, base64_body)
     = Some (\<lparr>Filename = ''attachment-1700000000000000000'',
              at_ContentType = ''application/octet-stream'',
              at_Data = Some (BytesReader '''')\<rparr>, None)"
proof -
  have f: "Part_FileName sample_stdlib octet_header = ''''"
    "Sprintf_d sample_stdlib (UnixNano sample_stdlib) = ''1700000000000000000''"
    by (simp_all add: sample_stdlib_def)
  have d: "decodeContent sample_stdlib (''aGVsbG8='', None) ''base64'' ''application/octet-stream''
      = Some ((Some (BytesReader ''hello''), None), ([], None))"
    by (simp add: decodeContent_def decodeCharset_no_charset sample_base64 sample_strings asciiLower_def
        lower_byte_def)
  have s: "index (Split ''application/octet-stream'' '';'') 0 = Some ''application/octet-stream''"
    by (simp add: index_def Split_def HasPrefix_def)
  show ?thesis
    by (simp add: decodeAttachment_def base64_body_def Get_examples f d s
        decodeMimeSentence_plain)
qed

text \<open>
  C4. Every string that begins with the marker \<open>=?koi8-r\<close> (in any case) and is shorter
  than 13 bytes makes \<open>decodeMimeSentence\<close> panic: one of the two slice expressions of
  \<open>decodeKoi8\<close> is out of range.
\<close>

theorem decodeKoi8_short_panics:
  "HasPrefix (ToLower L s) ''=?koi8-r'' \<Longrightarrow> length s < 13 \<Longrightarrow> decodeMimeSentence L s = None"
  by (auto simp add: decodeMimeSentence_def decodeKoi8_def prefixLen_def Let_def)

theorem decodeKoi8_short_panics_witness:
  "HasPrefix (ToLower sample_stdlib ''=?koi8-r'') ''=?koi8-r'' \<and> length ''=?koi8-r'' < 13 \<and>
   decodeMimeSentence sample_stdlib ''=?koi8-r'' = None \<and>
   HasPrefix (ToLower sample_stdlib ''=?KOI8-R?B?Q'') ''=?koi8-r'' \<and> length ''=?KOI8-R?B?Q'' < 13 \<and>
   decodeMimeSentence sample_stdlib ''=?KOI8-R?B?Q'' = None"
proof -
  have p: "HasPrefix (ToLower sample_stdlib ''=?koi8-r'') ''=?koi8-r''"
    "HasPrefix (ToLower sample_stdlib ''=?KOI8-R?B?Q'') ''=?koi8-r''"
    by (simp_all add: HasPrefix_def sample_strings asciiLower_def lower_byte_def)
  have l: "length ''=?koi8-r'' < 13" "length ''=?KOI8-R?B?Q'' < 13"
    by simp_all
  from decodeKoi8_short_panics [OF p(1) l(1)] decodeKoi8_short_panics [OF p(2) l(2)] p l
  show ?thesis by blast
qed

text \<open>
  C1. Whatever the library and the header, \<open>createEmailFromHeader\<close> panics or returns a
  nil error. For a header whose \<open>From\<close> field fails to parse and whose \<open>To\<close> field is
  well formed, the error of the \<open>From\<close> field stays in the copy of the receiver, the
  header decoding returns no error, and \<open>To\<close>, which comes after \<open>From\<close>, is parsed
  and filled in.
\<close>

theorem header_error_is_lost:
  "(map_option snd (createEmailFromHeader L h) = None \<or>
    map_option snd (createEmailFromHeader L h) = Some None) \<and>
   ParseAddressList sample_stdlib (Get bad_from_header ''From'') = Inl ''mail: no angle-addr'' \<and>
   snd (parseAddressList sample_stdlib \<lparr>header = bad_from_header, err = None\<rparr>
          (Get bad_from_header ''From''))
     = \<lparr>header = bad_from_header, err = Some (Library ''mail: no angle-addr'')\<rparr> \<and>
   map_option (\<lambda>(email, e). (From email, To email, e))
     (createEmailFromHeader sample_stdlib bad_from_header)
     = Some ([], [\<lparr>Name = '''', Address = ''recipient@example.com''\<rparr>], None)"
proof -
  have g: "Get bad_from_header ''From'' = ''not an address''"
    "Get bad_from_header ''To'' = ''recipient@example.com''"
    "Get bad_from_header ''Subject'' = ''''"
    by (simp_all add: bad_from_header_def go_eval)
  have a: "ParseAddressList sample_stdlib ''not an address'' = Inl ''mail: no angle-addr''"
    "ParseAddressList sample_stdlib ''recipient@example.com''
       = Inr [\<lparr>Name = '''', Address = ''recipient@example.com''\<rparr>]"
    by (simp_all add: sample_stdlib_def)
  have t: "Trim ''not an address'' [CHR '' '', LF] \<noteq> ''''"
    "Trim ''recipient@example.com'' [CHR '' '', LF] \<noteq> ''''"
    by (simp_all add: Trim_def LF_def)
  have f: "parseAddressList sample_stdlib \<lparr>header = bad_from_header, err = None\<rparr> ''not an address''
      = ([], \<lparr>header = bad_from_header, err = Some (Library ''mail: no angle-addr'')\<rparr>)"
    by (simp add: parseAddressList_def a t)
  have to: "fst (parseAddressList sample_stdlib \<lparr>header = bad_from_header, err = None\<rparr>
                   ''recipient@example.com'')
      = [\<lparr>Name = '''', Address = ''recipient@example.com''\<rparr>]"
    by (simp add: parseAddressList_def a t)
  have h: "decodeHeaderMime sample_stdlib bad_from_header
      = Some (bad_from_header, None)"
    by (simp add: decodeHeaderMime_def bad_from_header_def decodeMimeSentence_plain)
  have never: "map_option snd (createEmailFromHeader L h) = None \<or>
      map_option snd (createEmailFromHeader L h) = Some None"
  proof (cases "createEmailFromHeader L h")
    case None
    then show ?thesis by simp
  next
    case (Some res)
    then show ?thesis
      using createEmailFromHeader_no_error [of L h "fst res" "snd res"] by simp
  qed
  have "map_option (\<lambda>(email, e). (From email, To email, e))
      (createEmailFromHeader sample_stdlib bad_from_header)
      = Some ([], [\<lparr>Name = [], Address = ''recipient@example.com''\<rparr>], None)"
    by (simp add: createEmailFromHeader_def Let_def g a f to h decodeMimeSentence_plain)
  with never show ?thesis
    by (simp add: g a f)
qed

text \<open>
  C6. The subject of the repository's test with a literal \<open>online\<close> between encoded
  words: the space between \<open>online\<close> and the encoded word after it is not in the result,
  which therefore differs from the subject that the test expects.
\<close>

theorem literal_word_loses_space:
  "decodeMimeSentence sample_stdlib test_subject
     = Some (subject_text1 @ subject_text2 @ '' online'' @ subject_text3 @ '' 1259980'') \<and>
   decodeMimeSentence sample_stdlib test_subject \<noteq> Some test_expected"
proof -
  have k: "\<not> HasPrefix (ToLower sample_stdlib test_subject) ''=?koi8-r''"
    by (simp add: test_subject_def subject_word1_def HasPrefix_def sample_strings asciiLower_def lower_byte_def)
  have s: "Split test_subject '' ''
      = [subject_word1, subject_word2, ''online'', subject_word3, ''1259980'']"
    by (simp add: test_subject_def subject_word1_def subject_word2_def subject_word3_def
        Split_def HasPrefix_def)
  have r: "decodeMimeSentence sample_stdlib test_subject
      = Some (subject_text1 @ subject_text2 @ '' online'' @ subject_text3 @ '' 1259980'')"
    by (simp add: decodeMimeSentence_def decodeKoi8_no_marker [OF k] s sample_words
        sample_subject_words)
  have "subject_text1 @ subject_text2 @ '' online'' @ subject_text3 @ '' 1259980''
      \<noteq> test_expected"
    by (simp add: test_expected_def subject_text3_def)
  with r show ?thesis by simp
qed

end
